theory Spec2Isabelle
  imports Main "HOL-Library.Word"
begin

section \<open>JavaScript values\<close>

text \<open>
  The client is TypeScript compiled to JavaScript, and several of its branches are run-time
  tests on values of any type (\<^verbatim>\<open>typeof cb\<close>, \<^verbatim>\<open>if (tag)\<close>, \<^verbatim>\<open>Array.isArray\<close>,
  \<^verbatim>\<open>Object.prototype.toString.call\<close>). Such arguments are values of \<open>jsval\<close>; arguments the
  code only copies or concatenates keep their declared TypeScript type (\<open>string\<close>).

  Numbers are the safe integers, from \<open>- 2 ^ 53\<close> up to \<open>2 ^ 53 - 1\<close> (ports, ids, error
  codes): a signed word of 54 bits. In this range a number is printed with all its digits;
  NaN, fractions and larger numbers are not modelled. An object is the list of its own
  string-keyed properties in insertion order, with \<^verbatim>\<open>Object.prototype\<close> as its prototype; an
  own property may shadow a method of the prototype. An array is the list of its elements,
  and a function carries its kind and its source text, which is what converting it to a
  string yields; arrays and functions have no other own properties.
\<close>

datatype fun_kind = OrdinaryFunction | AsyncFunction | GeneratorFunction | AsyncGeneratorFunction

datatype jsval =
    JUndefined
  | JNull
  | JBool bool
  | JNum "54 word"
  | JStr string
  | JArr "jsval list"
  | JObj "(string \<times> jsval) list"
  | JFun fun_kind string

datatype js_error =
    TypeError
  | SyntaxError
  | Error string

text \<open>The condition of \<^verbatim>\<open>if (v)\<close>.\<close>

fun truthy :: "jsval \<Rightarrow> bool" where
  "truthy JUndefined = False"
| "truthy JNull = False"
| "truthy (JBool b) = b"
| "truthy (JNum n) = (n \<noteq> 0)"
| "truthy (JStr s) = (s \<noteq> [])"
| "truthy (JArr xs) = True"
| "truthy (JObj fs) = True"
| "truthy (JFun k f) = True"

fun nullish :: "jsval \<Rightarrow> bool" where
  "nullish JUndefined = True"
| "nullish JNull = True"
| "nullish v = False"

text \<open>\<^verbatim>\<open>typeof v === 'function'\<close>: true of a function of any kind.\<close>

fun is_function :: "jsval \<Rightarrow> bool" where
  "is_function (JFun k f) = True"
| "is_function v = False"

text \<open>\<^verbatim>\<open>typeof v === 'object' && !Array.isArray(v) && v !== null\<close>.\<close>

fun is_object :: "jsval \<Rightarrow> bool" where
  "is_object (JObj fs) = True"
| "is_object v = False"

text \<open>
  \<^verbatim>\<open>Object.prototype.toString.call(v)\<close>. An async or a generator function has a tag of its
  own, although its \<^verbatim>\<open>typeof\<close> is \<^verbatim>\<open>'function'\<close>.
\<close>

fun toString_tag :: "jsval \<Rightarrow> string" where
  "toString_tag JUndefined = ''[object Undefined]''"
| "toString_tag JNull = ''[object Null]''"
| "toString_tag (JBool b) = ''[object Boolean]''"
| "toString_tag (JNum n) = ''[object Number]''"
| "toString_tag (JStr s) = ''[object String]''"
| "toString_tag (JArr xs) = ''[object Array]''"
| "toString_tag (JObj fs) = ''[object Object]''"
| "toString_tag (JFun OrdinaryFunction f) = ''[object Function]''"
| "toString_tag (JFun AsyncFunction f) = ''[object AsyncFunction]''"
| "toString_tag (JFun GeneratorFunction f) = ''[object GeneratorFunction]''"
| "toString_tag (JFun AsyncGeneratorFunction f) = ''[object AsyncGeneratorFunction]''"

text \<open>
  \<open>own_prop v k\<close> is the own property \<open>k\<close> of a value, for the keys this code reads or calls
  (\<^verbatim>\<open>error\<close>, \<^verbatim>\<open>message\<close>, \<^verbatim>\<open>messaging_type\<close>, \<^verbatim>\<open>tag\<close>, \<^verbatim>\<open>hostname\<close>, \<^verbatim>\<open>port\<close>, \<^verbatim>\<open>hasOwnProperty\<close>,
  \<^verbatim>\<open>indexOf\<close>, \<^verbatim>\<open>toString\<close>, \<^verbatim>\<open>valueOf\<close>): only an object has such own properties. \<open>get_prop v k\<close>
  is \<^verbatim>\<open>v.k\<close> for a data key (the first six, which no prototype defines) on a value that is
  neither null nor undefined, and \<open>read_prop v k\<close> is the full read: on null and undefined
  it throws a TypeError.
\<close>

fun own_prop :: "jsval \<Rightarrow> string \<Rightarrow> jsval option" where
  "own_prop (JObj fs) k = map_of fs k"
| "own_prop v k = None"

definition get_prop :: "jsval \<Rightarrow> string \<Rightarrow> jsval" where
  "get_prop v k = (case own_prop v k of Some x \<Rightarrow> x | None \<Rightarrow> JUndefined)"

definition read_prop :: "jsval \<Rightarrow> string \<Rightarrow> js_error + jsval" where
  "read_prop v k = (if nullish v then Inl TypeError else Inr (get_prop v k))"

text \<open>
  Calling a function value runs code that is not part of this program: \<open>call f this args\<close>
  is a parameter of the model, \<open>Inl\<close> the exception the call throws.
\<close>

type_synonym js_call = "jsval \<Rightarrow> jsval \<Rightarrow> jsval list \<Rightarrow> js_error + jsval"

text \<open>
  \<^verbatim>\<open>v.hasOwnProperty(k)\<close>, as the source writes it: the method is looked up on \<open>v\<close> itself.
  Without an own property of that name it is \<^verbatim>\<open>Object.prototype.hasOwnProperty\<close>; an own
  property shadows it, and is called when it is a function and not callable otherwise.
\<close>

definition hasOwnProperty :: "js_call \<Rightarrow> jsval \<Rightarrow> string \<Rightarrow> js_error + jsval" where
  "hasOwnProperty call v k =
     (if nullish v then Inl TypeError
      else (case own_prop v ''hasOwnProperty'' of
              None \<Rightarrow> Inr (JBool (own_prop v k \<noteq> None))
            | Some m \<Rightarrow> if is_function m then call m v [JStr k] else Inl TypeError))"

text \<open>Writing a property: an existing key keeps its place, a new key goes last.\<close>

fun set_prop :: "string \<Rightarrow> jsval \<Rightarrow> (string \<times> jsval) list \<Rightarrow> (string \<times> jsval) list" where
  "set_prop k v [] = [(k, v)]"
| "set_prop k v (p # ps) = (if fst p = k then (k, v) # ps else p # set_prop k v ps)"

text \<open>
  The own properties an object spread \<^verbatim>\<open>{...v}\<close> copies, for the values \<^verbatim>\<open>options.json\<close> holds:
  those of an object, none of an absent value.
\<close>

fun spread :: "jsval option \<Rightarrow> (string \<times> jsval) list" where
  "spread (Some (JObj fs)) = fs"
| "spread v = []"

subsection \<open>Conversion to a string\<close>

function decimal :: "nat \<Rightarrow> string" where
  "decimal n =
     (if n < 10 then [''0123456789'' ! n]
      else decimal (n div 10) @ [''0123456789'' ! (n mod 10)])"
  by pat_completeness auto
termination
  by (relation "measure id") auto

definition int_to_string :: "int \<Rightarrow> string" where
  "int_to_string i = (if i < 0 then CHR ''-'' # decimal (nat (- i)) else decimal (nat i))"

declare decimal.simps [simp del]

fun join :: "string \<Rightarrow> string list \<Rightarrow> string" where
  "join sep [] = []"
| "join sep [x] = x"
| "join sep (x # y # ys) = x @ sep @ join sep (y # ys)"

text \<open>The values that are not objects, and their conversion to a string.\<close>

fun primitive :: "jsval \<Rightarrow> bool" where
  "primitive (JArr xs) = False"
| "primitive (JObj fs) = False"
| "primitive (JFun k f) = False"
| "primitive v = True"

fun prim_to_string :: "jsval \<Rightarrow> string" where
  "prim_to_string JUndefined = ''undefined''"
| "prim_to_string JNull = ''null''"
| "prim_to_string (JBool b) = (if b then ''true'' else ''false'')"
| "prim_to_string (JNum n) = int_to_string (sint n)"
| "prim_to_string (JStr s) = s"
| "prim_to_string v = []"

text \<open>
  Converting an object to a string calls its \<^verbatim>\<open>toString\<close> and, when that is not callable or
  returns an object, its \<^verbatim>\<open>valueOf\<close>; when neither gives a primitive value, the conversion
  throws a TypeError. Without own properties of these names, \<^verbatim>\<open>Object.prototype.toString\<close>
  gives \<^verbatim>\<open>[object Object]\<close>, and \<^verbatim>\<open>Object.prototype.valueOf\<close> gives the object itself.
\<close>

definition method_result :: "js_call \<Rightarrow> jsval \<Rightarrow> jsval \<Rightarrow> js_error + string option" where
  "method_result call v m =
     (if is_function m
      then (case call m v [] of
              Inl e \<Rightarrow> Inl e
            | Inr r \<Rightarrow> if primitive r then Inr (Some (prim_to_string r)) else Inr None)
      else Inr None)"

definition object_to_string :: "js_call \<Rightarrow> jsval \<Rightarrow> js_error + string" where
  "object_to_string call v =
     (case (case own_prop v ''toString'' of
              None \<Rightarrow> Inr (Some ''[object Object]'')
            | Some m \<Rightarrow> method_result call v m) of
        Inl e \<Rightarrow> Inl e
      | Inr (Some s) \<Rightarrow> Inr s
      | Inr None \<Rightarrow>
          (case own_prop v ''valueOf'' of
             None \<Rightarrow> Inl TypeError
           | Some m \<Rightarrow>
               (case method_result call v m of
                  Inl e \<Rightarrow> Inl e
                | Inr (Some s) \<Rightarrow> Inr s
                | Inr None \<Rightarrow> Inl TypeError)))"

text \<open>
  What a template literal \<^verbatim>\<open>`${v}`\<close> makes of a value, and what \<^verbatim>\<open>Array.prototype.join\<close>
  makes of the elements of an array: there, null and undefined give the empty string. The
  first conversion that throws ends the whole.
\<close>

fun to_string :: "js_call \<Rightarrow> jsval \<Rightarrow> js_error + string"
  and elements_to_strings :: "js_call \<Rightarrow> jsval list \<Rightarrow> js_error + string list" where
  "to_string call JUndefined = Inr (prim_to_string JUndefined)"
| "to_string call JNull = Inr (prim_to_string JNull)"
| "to_string call (JBool b) = Inr (prim_to_string (JBool b))"
| "to_string call (JNum n) = Inr (prim_to_string (JNum n))"
| "to_string call (JStr s) = Inr (prim_to_string (JStr s))"
| "to_string call (JArr xs) =
     (case elements_to_strings call xs of
        Inl e \<Rightarrow> Inl e
      | Inr ss \<Rightarrow> Inr (join '','' ss))"
| "to_string call (JObj fs) = object_to_string call (JObj fs)"
| "to_string call (JFun k f) = Inr f"
| "elements_to_strings call [] = Inr []"
| "elements_to_strings call (x # xs) =
     (case (if nullish x then Inr [] else to_string call x) of
        Inl e \<Rightarrow> Inl e
      | Inr s \<Rightarrow>
          (case elements_to_strings call xs of
             Inl e \<Rightarrow> Inl e
           | Inr ss \<Rightarrow> Inr (s # ss)))"

definition array_join :: "js_call \<Rightarrow> jsval list \<Rightarrow> string \<Rightarrow> js_error + string" where
  "array_join call xs sep =
     (case elements_to_strings call xs of
        Inl e \<Rightarrow> Inl e
      | Inr ss \<Rightarrow> Inr (join sep ss))"

text \<open>
  \<^verbatim>\<open>v.indexOf(needle) === 0\<close>: on a string, \<open>needle\<close> is a prefix; on an array, its first
  element is strictly equal to \<open>needle\<close>; on an object, its own \<^verbatim>\<open>indexOf\<close> is called when it
  is a function. Reading \<^verbatim>\<open>indexOf\<close> of null or undefined throws, and on any other value it
  is not a function, so the call throws.
\<close>

fun indexOf_is_0 :: "js_call \<Rightarrow> jsval \<Rightarrow> string \<Rightarrow> js_error + bool" where
  "indexOf_is_0 call (JStr s) needle = Inr (take (length needle) s = needle)"
| "indexOf_is_0 call (JArr xs) needle =
     Inr (case xs of [] \<Rightarrow> False | x # _ \<Rightarrow> x = JStr needle)"
| "indexOf_is_0 call (JObj fs) needle =
     (case own_prop (JObj fs) ''indexOf'' of
        None \<Rightarrow> Inl TypeError
      | Some m \<Rightarrow>
          if is_function m
          then (case call m (JObj fs) [JStr needle] of
                  Inl e \<Rightarrow> Inl e
                | Inr r \<Rightarrow> Inr (r = JNum 0))
          else Inl TypeError)"
| "indexOf_is_0 call v needle = Inl TypeError"

text \<open>
  \<^verbatim>\<open>JSON.parse(JSON.stringify(v))\<close> on a value none of whose objects has a \<^verbatim>\<open>toJSON\<close>
  property: a property whose value is undefined or a function is left out, such an array
  element becomes null, and \<open>None\<close> is a value that has no JSON text at all.
\<close>

fun json_roundtrip :: "jsval \<Rightarrow> jsval option" where
  "json_roundtrip JUndefined = None"
| "json_roundtrip (JFun k f) = None"
| "json_roundtrip JNull = Some JNull"
| "json_roundtrip (JBool b) = Some (JBool b)"
| "json_roundtrip (JNum n) = Some (JNum n)"
| "json_roundtrip (JStr s) = Some (JStr s)"
| "json_roundtrip (JArr xs) =
     Some (JArr (map (\<lambda>x. case json_roundtrip x of None \<Rightarrow> JNull | Some y \<Rightarrow> y) xs))"
| "json_roundtrip (JObj fs) =
     Some (JObj (concat (map (\<lambda>p. case json_roundtrip (snd p) of
                                      None \<Rightarrow> []
                                    | Some y \<Rightarrow> [(fst p, y)]) fs)))"

section \<open>The request utility (class Utils)\<close>

subsection \<open>Objects and the store\<close>

text \<open>
  \<^verbatim>\<open>RequestOptions\<close> and its nested \<^verbatim>\<open>qs\<close> are objects that the code mutates in place, and
  the static \<^verbatim>\<open>Utils.requestOptions\<close> is shared by every call. Each object therefore lives
  in a store at an address; an options object holds the address of its \<^verbatim>\<open>qs\<close> object. An
  optional field that is absent or undefined is \<open>None\<close>. A new object gets the next free
  address.
\<close>

record Qs =
  access_token :: "string option"
  qs_fields :: "string option"

record 'q RequestOptions =
  url :: string
  qs :: 'q
  http_method :: "string option"
  options_proxy :: "string option"
  json :: "jsval option"

record RequestData =
  token :: string
  proxy :: "string option"

record world =
  options_heap :: "nat RequestOptions list"
  qs_heap :: "Qs list"

text \<open>The address of the static \<^verbatim>\<open>Utils.requestOptions\<close>, and the store the module starts with.\<close>

definition requestOptions :: nat where
  "requestOptions = 0"

definition init_world :: world where
  "init_world =
     \<lparr>options_heap =
        [\<lparr>url = ''https://graph.facebook.com/v3.1/'', qs = 0, http_method = None,
          options_proxy = None, json = None\<rparr>],
      qs_heap = [\<lparr>access_token = None, qs_fields = None\<rparr>]\<rparr>"

text \<open>
  What an options object holds, with its \<^verbatim>\<open>qs\<close> object in place of the address: the deep
  reading of the object, which is what \<^verbatim>\<open>request\<close> is given.
\<close>

definition view :: "world \<Rightarrow> nat \<Rightarrow> Qs RequestOptions" where
  "view w a =
     (let opt = options_heap w ! a
      in \<lparr>url = url opt, qs = qs_heap w ! qs opt, http_method = http_method opt,
          options_proxy = options_proxy opt, json = json opt\<rparr>)"

text \<open>
  The static object is in the store with its \<^verbatim>\<open>qs\<close>: the state of every run, since the
  store only grows.
\<close>

definition wf_world :: "world \<Rightarrow> bool" where
  "wf_world w =
     (requestOptions < length (options_heap w) \<and>
      qs (options_heap w ! requestOptions) < length (qs_heap w))"

text \<open>Assignment to the fields of the object at an address.\<close>

definition update_options ::
  "nat \<Rightarrow> (nat RequestOptions \<Rightarrow> nat RequestOptions) \<Rightarrow> world \<Rightarrow> world" where
  "update_options a f w = w\<lparr>options_heap := (options_heap w)[a := f (options_heap w ! a)]\<rparr>"

definition update_qs :: "nat \<Rightarrow> (Qs \<Rightarrow> Qs) \<Rightarrow> world \<Rightarrow> world" where
  "update_qs a f w = w\<lparr>qs_heap := (qs_heap w)[a := f (qs_heap w ! a)]\<rparr>"

text \<open>Two new objects, an options object and a \<^verbatim>\<open>qs\<close> object, at the next free addresses.\<close>

definition allocate :: "world \<Rightarrow> nat RequestOptions \<Rightarrow> Qs \<Rightarrow> world" where
  "allocate w opt q = w\<lparr>options_heap := options_heap w @ [opt], qs_heap := qs_heap w @ [q]\<rparr>"

subsection \<open>setAPIVersion, getRequestOptions\<close>

definition setAPIVersion :: "string \<Rightarrow> world \<Rightarrow> world" where
  "setAPIVersion version w =
     update_options requestOptions
       (\<lambda>opt. opt\<lparr>url := ''https://graph.facebook.com/v'' @ version @ ''/''\<rparr>) w"

text \<open>
  \<^verbatim>\<open>JSON.parse(JSON.stringify(Utils.requestOptions))\<close>: the text is parsed into new objects,
  one for the options and one for \<^verbatim>\<open>qs\<close>. Strings survive the round trip as they are, and a
  field that is undefined is left out of the text, so it is absent in the copy.
\<close>

definition json_copy :: "jsval option \<Rightarrow> jsval option" where
  "json_copy j = (case j of None \<Rightarrow> None | Some v \<Rightarrow> json_roundtrip v)"

definition getRequestOptions :: "world \<Rightarrow> nat \<times> world" where
  "getRequestOptions w =
     (let base = options_heap w ! requestOptions;
          q = qs_heap w ! qs base;
          copy = \<lparr>url = url base, qs = length (qs_heap w), http_method = http_method base,
                  options_proxy = options_proxy base, json = json_copy (json base)\<rparr>
      in (length (options_heap w), allocate w copy q))"

subsection \<open>sendMessage\<close>

text \<open>
  \<^verbatim>\<open>sendMessage\<close> returns before the response arrives. The model returns what it passed to
  \<^verbatim>\<open>request\<close> (the options as they are at the call), the callback of the callback mode, and
  the promise it returns: a new promise that the response handler settles, or
  \<^verbatim>\<open>Promise.resolve()\<close>.
\<close>

datatype promise = NewPromise | PromiseResolve jsval

record send_result =
  request :: "Qs RequestOptions"
  callback :: "jsval option"
  returned :: promise

definition sendMessage :: "world \<Rightarrow> nat \<Rightarrow> RequestData \<Rightarrow> jsval \<Rightarrow> send_result \<times> world" where
  "sendMessage w options requestData cb =
     (let w1 = update_qs (qs (options_heap w ! options))
                 (\<lambda>q. q\<lparr>access_token := Some (token requestData)\<rparr>) w;
          w2 = (case proxy requestData of
                  None \<Rightarrow> w1
                | Some p \<Rightarrow> update_options options (\<lambda>opt. opt\<lparr>options_proxy := Some p\<rparr>) w1)
      in if \<not> is_function cb
         then (\<lparr>request = view w2 options, callback = None, returned = NewPromise\<rparr>, w2)
         else (\<lparr>request = view w2 options, callback = Some cb,
                returned = PromiseResolve JUndefined\<rparr>, w2))"

text \<open>
  The two response handlers, on the transport's outcome \<^verbatim>\<open>(err, _res, body)\<close>.
  \<^verbatim>\<open>JSON.parse\<close> is the language's, a parameter here: \<open>Inl\<close> is the exception it throws.
  A handler that throws settles nothing and calls nothing: the exception is uncaught.
\<close>

datatype settlement = Resolved jsval | Rejected jsval | Pending

definition promise_handler ::
  "(jsval \<Rightarrow> js_error + jsval) \<Rightarrow> jsval \<Rightarrow> jsval \<Rightarrow> js_error + settlement" where
  "promise_handler JSON_parse err body =
     (if truthy err then Inr (Rejected err)
      else if \<not> is_object body then
        (case JSON_parse body of
           Inl e \<Rightarrow> Inl e
         | Inr bodyObject \<Rightarrow>
             (case read_prop bodyObject ''error'' of
                Inl e \<Rightarrow> Inl e
              | Inr error \<Rightarrow>
                  if truthy error then Inr (Rejected (get_prop error ''message''))
                  else Inr (Resolved bodyObject)))
      else Inr (Resolved body))"

text \<open>The arguments the callback is called with.\<close>

definition callback_handler :: "jsval \<Rightarrow> jsval \<Rightarrow> js_error + jsval list" where
  "callback_handler err body =
     (if truthy err then Inr [err]
      else (case read_prop body ''error'' of
              Inl e \<Rightarrow> Inl e
            | Inr error \<Rightarrow> if truthy error then Inr [error] else Inr [JNull, body]))"

text \<open>
  What the caller of \<^verbatim>\<open>sendMessage\<close> observes once the transport has delivered
  \<^verbatim>\<open>(err, body)\<close>: the state of the promise it was given, the arguments its callback was
  called with, and the exception the handler threw.
\<close>

record delivery =
  settled :: settlement
  cb_args :: "jsval list option"
  uncaught :: "js_error option"

definition deliver ::
  "(jsval \<Rightarrow> js_error + jsval) \<Rightarrow> send_result \<Rightarrow> jsval \<Rightarrow> jsval \<Rightarrow> delivery" where
  "deliver JSON_parse r err body =
     (case callback r of
        None \<Rightarrow>
          (case promise_handler JSON_parse err body of
             Inl e \<Rightarrow> \<lparr>settled = Pending, cb_args = None, uncaught = Some e\<rparr>
           | Inr s \<Rightarrow> \<lparr>settled = s, cb_args = None, uncaught = None\<rparr>)
      | Some cb \<Rightarrow>
          (let s = (case returned r of PromiseResolve v \<Rightarrow> Resolved v | NewPromise \<Rightarrow> Pending)
           in case callback_handler err body of
                Inl e \<Rightarrow> \<lparr>settled = s, cb_args = None, uncaught = Some e\<rparr>
              | Inr args \<Rightarrow> \<lparr>settled = s, cb_args = Some args, uncaught = None\<rparr>))"

subsection \<open>getProxyData\<close>

text \<open>
  The test of the descriptor is a chain of \<^verbatim>\<open>&&\<close>: a part is evaluated only when the parts
  before it are truthy, and a part that throws ends the call. In the template literals the
  hostname is converted before the port.
\<close>

definition valid_descriptor :: "js_call \<Rightarrow> jsval \<Rightarrow> js_error + bool" where
  "valid_descriptor call proxyData =
     (if toString_tag proxyData = ''[object Object]''
      then (case hasOwnProperty call proxyData ''hostname'' of
              Inl e \<Rightarrow> Inl e
            | Inr has_hostname \<Rightarrow>
                if truthy has_hostname
                then (case hasOwnProperty call proxyData ''port'' of
                        Inl e \<Rightarrow> Inl e
                      | Inr has_port \<Rightarrow> Inr (truthy has_port))
                else Inr False)
      else Inr False)"

definition host_and_port :: "js_call \<Rightarrow> jsval \<Rightarrow> js_error + string" where
  "host_and_port call proxyData =
     (case to_string call (get_prop proxyData ''hostname'') of
        Inl e \<Rightarrow> Inl e
      | Inr host \<Rightarrow>
          (case to_string call (get_prop proxyData ''port'') of
             Inl e \<Rightarrow> Inl e
           | Inr port \<Rightarrow> Inr (host @ '':'' @ port)))"

definition getProxyData :: "js_call \<Rightarrow> RequestData \<Rightarrow> jsval \<Rightarrow> js_error + RequestData" where
  "getProxyData call requestData proxyData =
     (if truthy proxyData then
        (case valid_descriptor call proxyData of
           Inl e \<Rightarrow> Inl e
         | Inr valid \<Rightarrow>
             if valid then
               (case indexOf_is_0 call (get_prop proxyData ''hostname'') ''http'' of
                  Inl e \<Rightarrow> Inl e
                | Inr starts \<Rightarrow>
                    if starts then
                      (case host_and_port call proxyData of
                         Inl e \<Rightarrow> Inl e
                       | Inr hp \<Rightarrow> Inr (requestData\<lparr>proxy := Some hp\<rparr>))
                    else
                      (case host_and_port call proxyData of
                         Inl e \<Rightarrow> Inl e
                       | Inr hp \<Rightarrow> Inr (requestData\<lparr>proxy := Some (''http://'' @ hp)\<rparr>)))
             else Inl (Error ''Invalid Proxy object given, expected hostname and port''))
      else Inr requestData)"


section \<open>The URL heuristic of the media methods\<close>

text \<open>
  \<^verbatim>\<open>sendUrlOrIdBasedMessage\<close> tests its string with
  \<^verbatim>\<open>/(http(s)?:\/\/.)?(www\.)?[-a-zA-Z0-9@:%._\+~#=]{2,256}\.[a-z]{2,6}\b([-a-zA-Z0-9@:%_\+.~#?&//=]*)/g\<close>.
  The expression is kept as a syntax tree and run by a backtracking matcher. A position is
  the character before it (for \<^verbatim>\<open>\b\<close>) and the rest of the string; matching at a position
  gives the positions a match can end at, longest repetition first. Characters are code
  units.
\<close>

datatype regex =
    Lit string
  | AnyChar
  | OneOf string
  | Seq regex regex
  | Opt regex
  | Rep nat nat regex
  | Star regex
  | WordBoundary

type_synonym pos = "char option \<times> string"

definition lower :: string where
  "lower = ''abcdefghijklmnopqrstuvwxyz''"

definition upper :: string where
  "upper = ''ABCDEFGHIJKLMNOPQRSTUVWXYZ''"

definition digits :: string where
  "digits = ''0123456789''"

text \<open>The line terminators \<^verbatim>\<open>.\<close> does not match, among the code units below 256.\<close>

definition line_terminators :: string where
  "line_terminators = [CHR 0x0A, CHR 0x0D]"

text \<open>\<^verbatim>\<open>\w\<close>; the side of a position with no character on it counts as not a word character.\<close>

definition is_word :: "char option \<Rightarrow> bool" where
  "is_word c = (case c of None \<Rightarrow> False | Some x \<Rightarrow> x \<in> set (lower @ upper @ digits @ ''_''))"

text \<open>Between \<open>lo\<close> and \<open>hi\<close> repetitions of a step \<open>f\<close>.\<close>

fun rep :: "(pos \<Rightarrow> pos list) \<Rightarrow> nat \<Rightarrow> nat \<Rightarrow> pos \<Rightarrow> pos list" where
  "rep f lo 0 p = (if lo = 0 then [p] else [])"
| "rep f lo (Suc hi) p =
     concat (map (rep f (lo - 1) hi) (f p)) @ (if lo = 0 then [p] else [])"

text \<open>
  A starred expression repeats at most once per remaining character: a repetition that
  consumes nothing reaches no new position.
\<close>

primrec rx_match :: "regex \<Rightarrow> pos \<Rightarrow> pos list" where
  "rx_match (Lit s) p =
     (if take (length s) (snd p) = s
      then [(if s = [] then fst p else Some (last s), drop (length s) (snd p))]
      else [])"
| "rx_match AnyChar p =
     (case snd p of
        [] \<Rightarrow> []
      | x # xs \<Rightarrow> if x \<in> set line_terminators then [] else [(Some x, xs)])"
| "rx_match (OneOf cs) p =
     (case snd p of
        [] \<Rightarrow> []
      | x # xs \<Rightarrow> if x \<in> set cs then [(Some x, xs)] else [])"
| "rx_match (Seq a b) p = concat (map (rx_match b) (rx_match a p))"
| "rx_match (Opt a) p = rx_match a p @ [p]"
| "rx_match (Rep lo hi a) p = rep (rx_match a) lo hi p"
| "rx_match (Star a) p = rep (rx_match a) 0 (length (snd p)) p"
| "rx_match WordBoundary p =
     (if is_word (fst p) \<noteq> is_word (case snd p of [] \<Rightarrow> None | x # xs \<Rightarrow> Some x)
      then [p] else [])"

definition url_regex :: regex where
  "url_regex =
     Seq (Opt (Seq (Lit ''http'') (Seq (Opt (Lit ''s'')) (Seq (Lit ''://'') AnyChar))))
    (Seq (Opt (Lit ''www.''))
    (Seq (Rep 2 256 (OneOf (''-'' @ lower @ upper @ digits @ ''@:%._+~#='')))
    (Seq (Lit ''.'')
    (Seq (Rep 2 6 (OneOf lower))
    (Seq WordBoundary
         (Star (OneOf (''-'' @ lower @ upper @ digits @ ''@:%_+.~#?&//=''))))))))"

text \<open>Every position of a string, from its start to its end.\<close>

fun positions :: "char option \<Rightarrow> string \<Rightarrow> pos list" where
  "positions c [] = [(c, [])]"
| "positions c (x # xs) = (c, x # xs) # positions (Some x) xs"

text \<open>
  \<^verbatim>\<open>s.match(re)\<close> with the \<^verbatim>\<open>g\<close> flag is the array of all matches, or null when there is
  none: it is truthy when the expression matches at some position.
\<close>

definition url_match :: "string \<Rightarrow> bool" where
  "url_match s = list_ex (\<lambda>p. rx_match url_regex p \<noteq> []) (positions None s)"

section \<open>The messaging client (class FacebookMessagingAPIClient)\<close>

text \<open>
  Modelled from the spec: the enum \<^verbatim>\<open>ATTACHMENT_TYPE\<close> is imported from \<^verbatim>\<open>../enums\<close>, which
  is not among the sources; the spec names its tags image, audio, video, file and template.
\<close>

datatype ATTACHMENT_TYPE = IMAGE | AUDIO | VIDEO | FILE | TEMPLATE

fun attachment_type :: "ATTACHMENT_TYPE \<Rightarrow> jsval" where
  "attachment_type IMAGE = JStr ''image''"
| "attachment_type AUDIO = JStr ''audio''"
| "attachment_type VIDEO = JStr ''video''"
| "attachment_type FILE = JStr ''file''"
| "attachment_type TEMPLATE = JStr ''template''"

definition markSeenPayload :: string where
  "markSeenPayload = ''mark_seen''"

definition typingOn :: string where
  "typingOn = ''typing_on''"

definition typingOff :: string where
  "typingOff = ''typing_off''"


definition generateBasicRequestPayload :: "world \<Rightarrow> string \<Rightarrow> nat \<times> world" where
  "generateBasicRequestPayload w uid =
     (let (options, w1) = getRequestOptions w
      in (options,
          update_options options
            (\<lambda>opt. opt\<lparr>url := url opt @ ''me/messages'', http_method := Some ''POST'',
                       json := Some (JObj [(''recipient'', JObj [(''id'', JStr uid)])])\<rparr>) w1))"

definition sendAction ::
  "world \<Rightarrow> RequestData \<Rightarrow> string \<Rightarrow> string \<Rightarrow> jsval \<Rightarrow> send_result \<times> world" where
  "sendAction w requestData uid payload cb =
     (let (options, w1) = generateBasicRequestPayload w uid;
          w2 = update_options options
                 (\<lambda>opt. opt\<lparr>json := Some (JObj (set_prop ''sender_action'' (JStr payload)
                                                   (spread (json opt))))\<rparr>) w1
      in sendMessage w2 options requestData cb)"

definition toggleAction ::
  "world \<Rightarrow> RequestData \<Rightarrow> string \<Rightarrow> jsval \<Rightarrow> jsval \<Rightarrow> send_result \<times> world" where
  "toggleAction w requestData uid toggleValue cb =
     (if truthy toggleValue then sendAction w requestData uid typingOn cb
      else sendAction w requestData uid typingOff cb)"

text \<open>
  In \<^verbatim>\<open>if (tag)\<close> the tag is truthy, so reading its properties does not throw; a property
  it lacks is written with the value undefined.
\<close>

definition sendDisplayMessage ::
  "world \<Rightarrow> RequestData \<Rightarrow> string \<Rightarrow> jsval \<Rightarrow> jsval \<Rightarrow> jsval \<Rightarrow> send_result \<times> world" where
  "sendDisplayMessage w requestData uid payload tag cb =
     (let (options, w1) = generateBasicRequestPayload w uid;
          w2 = update_options options
                 (\<lambda>opt. opt\<lparr>json := Some (JObj (set_prop ''message'' payload
                                                   (spread (json opt))))\<rparr>) w1;
          w3 = (if truthy tag
                then update_options options
                       (\<lambda>opt. opt\<lparr>json := Some (JObj
                          (set_prop ''tag'' (get_prop tag ''tag'')
                            (set_prop ''messaging_type'' (get_prop tag ''messaging_type'')
                              (spread (json opt)))))\<rparr>) w2
                else w2)
      in sendMessage w3 options requestData cb)"

definition sendAttachmentMessage ::
  "world \<Rightarrow> RequestData \<Rightarrow> string \<Rightarrow> jsval \<Rightarrow> jsval \<Rightarrow> jsval \<Rightarrow> send_result \<times> world" where
  "sendAttachmentMessage w requestData uid payload tag cb =
     sendDisplayMessage w requestData uid (JObj [(''attachment'', payload)]) tag cb"

definition sendUrlOrIdBasedMessage ::
  "world \<Rightarrow> RequestData \<Rightarrow> string \<Rightarrow> ATTACHMENT_TYPE \<Rightarrow> string \<Rightarrow> jsval \<Rightarrow> jsval
    \<Rightarrow> send_result \<times> world" where
  "sendUrlOrIdBasedMessage w requestData uid type urlOrId tag cb =
     (let payload =
            (if url_match urlOrId
             then JObj [(''type'', attachment_type type),
                        (''payload'', JObj [(''is_reusable'', JBool True),
                                            (''url'', JStr urlOrId)])]
             else JObj [(''type'', attachment_type type),
                        (''payload'', JObj [(''attachment_id'', JStr urlOrId)])])
      in sendAttachmentMessage w requestData uid payload tag cb)"

subsection \<open>The public methods\<close>

definition markSeen ::
  "world \<Rightarrow> RequestData \<Rightarrow> string \<Rightarrow> jsval \<Rightarrow> send_result \<times> world" where
  "markSeen w requestData uid cb = sendAction w requestData uid markSeenPayload cb"

text \<open>
  \<^verbatim>\<open>toggleTyping\<close> looks at \<^verbatim>\<open>arguments.length\<close>: \<open>rest\<close> is the list of the arguments passed
  after \<open>id\<close>, and a parameter with no argument is undefined.
\<close>

definition arg :: "jsval list \<Rightarrow> nat \<Rightarrow> jsval" where
  "arg rest i = (if i < length rest then rest ! i else JUndefined)"

definition toggleTyping ::
  "world \<Rightarrow> RequestData \<Rightarrow> string \<Rightarrow> jsval list \<Rightarrow> send_result \<times> world" where
  "toggleTyping w requestData uid rest =
     (let toggle = arg rest 0; cb = arg rest 1
      in if Suc (length rest) = 3 then toggleAction w requestData uid toggle cb
         else if toString_tag toggle = ''[object Function]''
         then sendAction w requestData uid typingOff toggle
         else toggleAction w requestData uid toggle JUndefined)"

definition sendTextMessage ::
  "world \<Rightarrow> RequestData \<Rightarrow> string \<Rightarrow> string \<Rightarrow> jsval \<Rightarrow> jsval \<Rightarrow> send_result \<times> world" where
  "sendTextMessage w requestData uid text tag cb =
     sendDisplayMessage w requestData uid (JObj [(''text'', JStr text)]) tag cb"

definition sendImageMessage ::
  "world \<Rightarrow> RequestData \<Rightarrow> string \<Rightarrow> string \<Rightarrow> jsval \<Rightarrow> jsval \<Rightarrow> send_result \<times> world" where
  "sendImageMessage w requestData uid imageUrlOrId tag cb =
     sendUrlOrIdBasedMessage w requestData uid IMAGE imageUrlOrId tag cb"

definition sendAudioMessage ::
  "world \<Rightarrow> RequestData \<Rightarrow> string \<Rightarrow> string \<Rightarrow> jsval \<Rightarrow> jsval \<Rightarrow> send_result \<times> world" where
  "sendAudioMessage w requestData uid audioUrlOrId tag cb =
     sendUrlOrIdBasedMessage w requestData uid AUDIO audioUrlOrId tag cb"

definition sendVideoMessage ::
  "world \<Rightarrow> RequestData \<Rightarrow> string \<Rightarrow> string \<Rightarrow> jsval \<Rightarrow> jsval \<Rightarrow> send_result \<times> world" where
  "sendVideoMessage w requestData uid videoUrlOrId tag cb =
     sendUrlOrIdBasedMessage w requestData uid VIDEO videoUrlOrId tag cb"

definition sendFileMessage ::
  "world \<Rightarrow> RequestData \<Rightarrow> string \<Rightarrow> string \<Rightarrow> jsval \<Rightarrow> jsval \<Rightarrow> send_result \<times> world" where
  "sendFileMessage w requestData uid fileUrlOrId tag cb =
     sendUrlOrIdBasedMessage w requestData uid FILE fileUrlOrId tag cb"

definition sendButtonsMessage ::
  "world \<Rightarrow> RequestData \<Rightarrow> string \<Rightarrow> string \<Rightarrow> jsval \<Rightarrow> jsval \<Rightarrow> jsval
    \<Rightarrow> send_result \<times> world" where
  "sendButtonsMessage w requestData uid text buttons tag cb =
     (let payload = JObj [(''type'', attachment_type TEMPLATE),
                          (''payload'', JObj [(''text'', JStr text), (''buttons'', buttons),
                                              (''template_type'', JStr ''button'')])]
      in sendAttachmentMessage w requestData uid payload tag cb)"

definition sendTemplateMessage ::
  "world \<Rightarrow> RequestData \<Rightarrow> string \<Rightarrow> jsval \<Rightarrow> jsval \<Rightarrow> jsval \<Rightarrow> send_result \<times> world" where
  "sendTemplateMessage w requestData uid templatePayload tag cb =
     (let payload = JObj [(''type'', attachment_type TEMPLATE), (''payload'', templatePayload)]
      in sendAttachmentMessage w requestData uid payload tag cb)"

text \<open>
  \<^verbatim>\<open>typeof textOrAttachment === 'string'\<close> is the test of the constructor \<open>JStr\<close>, and
  \<^verbatim>\<open>Array.isArray(fieldsArray)\<close> that of \<open>JArr\<close>.
\<close>

definition sendQuickReplyMessage ::
  "world \<Rightarrow> RequestData \<Rightarrow> string \<Rightarrow> jsval \<Rightarrow> jsval \<Rightarrow> jsval \<Rightarrow> jsval
    \<Rightarrow> send_result \<times> world" where
  "sendQuickReplyMessage w requestData uid textOrAttachment quickReplies tag cb =
     (let payload =
            (case textOrAttachment of
               JStr s \<Rightarrow> JObj [(''text'', textOrAttachment), (''quick_replies'', quickReplies)]
             | _ \<Rightarrow> JObj [(''attachment'', textOrAttachment),
                          (''quick_replies'', quickReplies)])
      in sendDisplayMessage w requestData uid payload tag cb)"

text \<open>
  \<^verbatim>\<open>getUserProfile\<close> can throw, in the conversion of an element of \<^verbatim>\<open>fieldsArray\<close>; the store
  is then the one reached so far.
\<close>

definition getUserProfile ::
  "js_call \<Rightarrow> world \<Rightarrow> RequestData \<Rightarrow> string \<Rightarrow> jsval \<Rightarrow> jsval
    \<Rightarrow> (js_error + send_result) \<times> world" where
  "getUserProfile call w requestData uid fieldsArray cb =
     (let (options, w1) = getRequestOptions w;
          w2 = update_options options (\<lambda>opt. opt\<lparr>url := url opt @ uid\<rparr>) w1
      in case (case fieldsArray of
                 JArr xs \<Rightarrow> array_join call xs '',''
               | _ \<Rightarrow> Inr ''first_name'') of
           Inl e \<Rightarrow> (Inl e, w2)
         | Inr joined \<Rightarrow>
             (let w3 = update_qs (qs (options_heap w2 ! options))
                         (\<lambda>q. q\<lparr>qs_fields := Some joined\<rparr>) w2;
                  w4 = update_options options (\<lambda>opt. opt\<lparr>http_method := Some ''GET''\<rparr>) w3;
                  sent = sendMessage w4 options requestData cb
              in (Inr (fst sent), snd sent)))"

subsection \<open>Sequences of calls\<close>

text \<open>
  A call of a public method with its arguments, the store it leaves, and a run of calls by
  any clients on the shared store, one after the other.
\<close>

datatype client_call =
    MarkSeen string jsval
  | ToggleTyping string "jsval list"
  | SendTextMessage string string jsval jsval
  | SendImageMessage string string jsval jsval
  | SendAudioMessage string string jsval jsval
  | SendVideoMessage string string jsval jsval
  | SendFileMessage string string jsval jsval
  | SendButtonsMessage string string jsval jsval jsval
  | SendTemplateMessage string jsval jsval jsval
  | SendQuickReplyMessage string jsval jsval jsval jsval
  | GetUserProfile string jsval jsval

fun perform :: "js_call \<Rightarrow> world \<Rightarrow> RequestData \<Rightarrow> client_call \<Rightarrow> world" where
  "perform call w rd (MarkSeen uid cb) = snd (markSeen w rd uid cb)"
| "perform call w rd (ToggleTyping uid rest) = snd (toggleTyping w rd uid rest)"
| "perform call w rd (SendTextMessage uid text tag cb) =
     snd (sendTextMessage w rd uid text tag cb)"
| "perform call w rd (SendImageMessage uid s tag cb) = snd (sendImageMessage w rd uid s tag cb)"
| "perform call w rd (SendAudioMessage uid s tag cb) = snd (sendAudioMessage w rd uid s tag cb)"
| "perform call w rd (SendVideoMessage uid s tag cb) = snd (sendVideoMessage w rd uid s tag cb)"
| "perform call w rd (SendFileMessage uid s tag cb) = snd (sendFileMessage w rd uid s tag cb)"
| "perform call w rd (SendButtonsMessage uid text buttons tag cb) =
     snd (sendButtonsMessage w rd uid text buttons tag cb)"
| "perform call w rd (SendTemplateMessage uid template tag cb) =
     snd (sendTemplateMessage w rd uid template tag cb)"
| "perform call w rd (SendQuickReplyMessage uid textOrAttachment quickReplies tag cb) =
     snd (sendQuickReplyMessage w rd uid textOrAttachment quickReplies tag cb)"
| "perform call w rd (GetUserProfile uid fieldsArray cb) =
     snd (getUserProfile call w rd uid fieldsArray cb)"

fun run :: "js_call \<Rightarrow> world \<Rightarrow> (RequestData \<times> client_call) list \<Rightarrow> world" where
  "run call w [] = w"
| "run call w (c # cs) = run call (perform call w (fst c) (snd c)) cs"

section \<open>The store: new objects never alias the static options\<close>

lemma update_options_allocate:
  "update_options (length (options_heap w)) f (allocate w opt q) = allocate w (f opt) q"
  by (simp add: update_options_def allocate_def)

lemma update_qs_allocate:
  "update_qs (length (qs_heap w)) g (allocate w opt q) = allocate w opt (g q)"
  by (simp add: update_qs_def allocate_def)

lemma options_heap_allocate:
  "options_heap (allocate w opt q) ! length (options_heap w) = opt"
  by (simp add: allocate_def)

lemma view_allocate:
  "qs opt = length (qs_heap w) \<Longrightarrow>
   view (allocate w opt q) (length (options_heap w)) =
     \<lparr>url = url opt, qs = q, http_method = http_method opt, options_proxy = options_proxy opt,
      json = json opt\<rparr>"
  by (simp add: view_def allocate_def)

lemma wf_world_init: "wf_world init_world"
  by (simp add: wf_world_def init_world_def requestOptions_def)

lemma wf_world_allocate: "wf_world w \<Longrightarrow> wf_world (allocate w opt q)"
  by (simp add: wf_world_def allocate_def nth_append)

lemma view_static_allocate:
  "wf_world w \<Longrightarrow> view (allocate w opt q) requestOptions = view w requestOptions"
  by (simp add: wf_world_def view_def allocate_def nth_append)

lemma getRequestOptions_allocate:
  "getRequestOptions w =
     (length (options_heap w),
      allocate w
        \<lparr>url = url (options_heap w ! requestOptions), qs = length (qs_heap w),
         http_method = http_method (options_heap w ! requestOptions),
         options_proxy = options_proxy (options_heap w ! requestOptions),
         json = json_copy (json (options_heap w ! requestOptions))\<rparr>
        (qs_heap w ! qs (options_heap w ! requestOptions)))"
  by (simp add: getRequestOptions_def Let_def)

subsection \<open>What each method sends, and the store it leaves\<close>

lemma sendMessage_allocate:
  "sendMessage (allocate w opt q) (length (options_heap w)) requestData cb =
     (\<lparr>request =
         \<lparr>url = url opt, qs = q\<lparr>access_token := Some (token requestData)\<rparr>,
          http_method = http_method opt,
          options_proxy =
            (case proxy requestData of None \<Rightarrow> options_proxy opt | Some p \<Rightarrow> Some p),
          json = json opt\<rparr>,
       callback = (if is_function cb then Some cb else None),
       returned = (if is_function cb then PromiseResolve JUndefined else NewPromise)\<rparr>,
      allocate w
        (opt\<lparr>options_proxy :=
               (case proxy requestData of None \<Rightarrow> options_proxy opt | Some p \<Rightarrow> Some p)\<rparr>)
        (q\<lparr>access_token := Some (token requestData)\<rparr>))"
  if "qs opt = length (qs_heap w)"
proof (cases "proxy requestData")
  case None
  then show ?thesis
    using that
    by (simp add: sendMessage_def Let_def options_heap_allocate update_qs_allocate
        view_allocate)
next
  case (Some p)
  then show ?thesis
    using that
    by (simp add: sendMessage_def Let_def options_heap_allocate update_qs_allocate
        update_options_allocate view_allocate)
qed

lemma sendMessage_mode:
  "callback (fst (sendMessage w options requestData cb)) =
     (if is_function cb then Some cb else None)"
  "returned (fst (sendMessage w options requestData cb)) =
     (if is_function cb then PromiseResolve JUndefined else NewPromise)"
  by (simp_all add: sendMessage_def Let_def)

lemma generateBasicRequestPayload_allocate:
  "generateBasicRequestPayload w uid =
     (length (options_heap w),
      allocate w
        \<lparr>url = url (options_heap w ! requestOptions) @ ''me/messages'',
         qs = length (qs_heap w), http_method = Some ''POST'',
         options_proxy = options_proxy (options_heap w ! requestOptions),
         json = Some (JObj [(''recipient'', JObj [(''id'', JStr uid)])])\<rparr>
        (qs_heap w ! qs (options_heap w ! requestOptions)))"
  by (simp add: generateBasicRequestPayload_def getRequestOptions_allocate
      update_options_allocate)

lemma sendAction_allocate:
  "sendAction w requestData uid payload cb =
     (\<lparr>request =
         \<lparr>url = url (options_heap w ! requestOptions) @ ''me/messages'',
          qs = (qs_heap w ! qs (options_heap w ! requestOptions))
                 \<lparr>access_token := Some (token requestData)\<rparr>,
          http_method = Some ''POST'',
          options_proxy = (case proxy requestData of
                             None \<Rightarrow> options_proxy (options_heap w ! requestOptions)
                           | Some p \<Rightarrow> Some p),
          json = Some (JObj [(''recipient'', JObj [(''id'', JStr uid)]),
                             (''sender_action'', JStr payload)])\<rparr>,
       callback = (if is_function cb then Some cb else None),
       returned = (if is_function cb then PromiseResolve JUndefined else NewPromise)\<rparr>,
      allocate w
        \<lparr>url = url (options_heap w ! requestOptions) @ ''me/messages'',
         qs = length (qs_heap w), http_method = Some ''POST'',
         options_proxy = (case proxy requestData of
                            None \<Rightarrow> options_proxy (options_heap w ! requestOptions)
                          | Some p \<Rightarrow> Some p),
         json = Some (JObj [(''recipient'', JObj [(''id'', JStr uid)]),
                            (''sender_action'', JStr payload)])\<rparr>
        ((qs_heap w ! qs (options_heap w ! requestOptions))
           \<lparr>access_token := Some (token requestData)\<rparr>))"
  by (simp add: sendAction_def generateBasicRequestPayload_allocate update_options_allocate
      sendMessage_allocate split: option.splits)

lemma sendDisplayMessage_allocate:
  "sendDisplayMessage w requestData uid payload tag cb =
     (\<lparr>request =
         \<lparr>url = url (options_heap w ! requestOptions) @ ''me/messages'',
          qs = (qs_heap w ! qs (options_heap w ! requestOptions))
                 \<lparr>access_token := Some (token requestData)\<rparr>,
          http_method = Some ''POST'',
          options_proxy = (case proxy requestData of
                             None \<Rightarrow> options_proxy (options_heap w ! requestOptions)
                           | Some p \<Rightarrow> Some p),
          json = Some (JObj ([(''recipient'', JObj [(''id'', JStr uid)]), (''message'', payload)]
                   @ (if truthy tag
                      then [(''messaging_type'', get_prop tag ''messaging_type''),
                            (''tag'', get_prop tag ''tag'')]
                      else [])))\<rparr>,
       callback = (if is_function cb then Some cb else None),
       returned = (if is_function cb then PromiseResolve JUndefined else NewPromise)\<rparr>,
      allocate w
        \<lparr>url = url (options_heap w ! requestOptions) @ ''me/messages'',
         qs = length (qs_heap w), http_method = Some ''POST'',
         options_proxy = (case proxy requestData of
                            None \<Rightarrow> options_proxy (options_heap w ! requestOptions)
                          | Some p \<Rightarrow> Some p),
         json = Some (JObj ([(''recipient'', JObj [(''id'', JStr uid)]), (''message'', payload)]
                   @ (if truthy tag
                      then [(''messaging_type'', get_prop tag ''messaging_type''),
                            (''tag'', get_prop tag ''tag'')]
                      else [])))\<rparr>
        ((qs_heap w ! qs (options_heap w ! requestOptions))
           \<lparr>access_token := Some (token requestData)\<rparr>))"
  by (simp add: sendDisplayMessage_def generateBasicRequestPayload_allocate
      update_options_allocate sendMessage_allocate split: option.splits)

lemma getUserProfile_result:
  "getUserProfile call w requestData uid fieldsArray cb =
     (case (case fieldsArray of
              JArr xs \<Rightarrow> array_join call xs '',''
            | _ \<Rightarrow> Inr ''first_name'') of
        Inl e \<Rightarrow>
          (Inl e,
           allocate w
             \<lparr>url = url (options_heap w ! requestOptions) @ uid,
              qs = length (qs_heap w),
              http_method = http_method (options_heap w ! requestOptions),
              options_proxy = options_proxy (options_heap w ! requestOptions),
              json = json_copy (json (options_heap w ! requestOptions))\<rparr>
             (qs_heap w ! qs (options_heap w ! requestOptions)))
      | Inr joined \<Rightarrow>
          (Inr \<lparr>request =
                 \<lparr>url = url (options_heap w ! requestOptions) @ uid,
                  qs = (qs_heap w ! qs (options_heap w ! requestOptions))
                         \<lparr>qs_fields := Some joined,
                          access_token := Some (token requestData)\<rparr>,
                  http_method = Some ''GET'',
                  options_proxy = (case proxy requestData of
                                     None \<Rightarrow> options_proxy (options_heap w ! requestOptions)
                                   | Some p \<Rightarrow> Some p),
                  json = json_copy (json (options_heap w ! requestOptions))\<rparr>,
               callback = (if is_function cb then Some cb else None),
               returned = (if is_function cb then PromiseResolve JUndefined else NewPromise)\<rparr>,
           allocate w
             \<lparr>url = url (options_heap w ! requestOptions) @ uid,
              qs = length (qs_heap w), http_method = Some ''GET'',
              options_proxy = (case proxy requestData of
                                 None \<Rightarrow> options_proxy (options_heap w ! requestOptions)
                               | Some p \<Rightarrow> Some p),
              json = json_copy (json (options_heap w ! requestOptions))\<rparr>
             ((qs_heap w ! qs (options_heap w ! requestOptions))
                \<lparr>qs_fields := Some joined,
                 access_token := Some (token requestData)\<rparr>)))"
  by (simp add: getUserProfile_def getRequestOptions_allocate Let_def options_heap_allocate
      update_options_allocate update_qs_allocate sendMessage_allocate
      split: option.splits sum.splits)

lemma sendAction_json:
  "json (request (fst (sendAction w requestData uid payload cb))) =
     Some (JObj [(''recipient'', JObj [(''id'', JStr uid)]), (''sender_action'', JStr payload)])"
  by (simp add: sendAction_allocate)

lemma sendDisplayMessage_json:
  "json (request (fst (sendDisplayMessage w requestData uid payload tag cb))) =
     Some (JObj ([(''recipient'', JObj [(''id'', JStr uid)]), (''message'', payload)]
       @ (if truthy tag
          then [(''messaging_type'', get_prop tag ''messaging_type''),
                (''tag'', get_prop tag ''tag'')]
          else [])))"
  by (simp add: sendDisplayMessage_allocate)

lemma sendAction_world:
  "\<exists>opt q. snd (sendAction w requestData uid payload cb) = allocate w opt q"
  by (simp add: sendAction_allocate) blast

lemma sendDisplayMessage_world:
  "\<exists>opt q. snd (sendDisplayMessage w requestData uid payload tag cb) = allocate w opt q"
  by (simp add: sendDisplayMessage_allocate) blast

lemma getUserProfile_world:
  "\<exists>opt q. snd (getUserProfile call w requestData uid fieldsArray cb) = allocate w opt q"
  by (simp add: getUserProfile_result split: sum.splits) blast

lemmas method_defs =
  markSeen_def toggleTyping_def toggleAction_def sendTextMessage_def sendImageMessage_def
  sendAudioMessage_def sendVideoMessage_def sendFileMessage_def sendButtonsMessage_def
  sendTemplateMessage_def sendQuickReplyMessage_def sendUrlOrIdBasedMessage_def
  sendAttachmentMessage_def

lemma perform_world: "\<exists>opt q. perform call w rd c = allocate w opt q"
  by (cases c)
     (simp_all add: method_defs Let_def sendAction_world sendDisplayMessage_world
        getUserProfile_world)

lemma perform_frame:
  "wf_world w \<Longrightarrow>
   wf_world (perform call w rd c) \<and>
   view (perform call w rd c) requestOptions = view w requestOptions"
  using perform_world [of call w rd c]
  by (auto simp add: wf_world_allocate view_static_allocate)

lemma run_frame:
  "wf_world w \<Longrightarrow>
   wf_world (run call w cs) \<and> view (run call w cs) requestOptions = view w requestOptions"
proof (induction cs arbitrary: w)
  case Nil
  then show ?case by simp
next
  case (Cons c cs)
  from perform_frame [OF Cons.prems, of call "fst c" "snd c"]
  have step: "wf_world (perform call w (fst c) (snd c))"
    and same: "view (perform call w (fst c) (snd c)) requestOptions = view w requestOptions"
    by simp_all
  from Cons.IH [OF step] same show ?case
    by simp
qed

section \<open>The response handlers\<close>

text \<open>
  Claim C1 (promise mode of \<^verbatim>\<open>sendMessage\<close>: a body with an error field rejects with the
  error's message). The handler looks for the error field only in a body it has parsed
  itself. Every send method sets \<^verbatim>\<open>options.json\<close>, so the transport delivers the body as an
  object; for such a body carrying an error the promise resolves with the body instead of
  rejecting with the message, whatever \<^verbatim>\<open>JSON.parse\<close> is.
\<close>

theorem promise_resolves_on_error_object:
  "settled (deliver JSON_parse
     (fst (sendTextMessage init_world \<lparr>token = ''T'', proxy = None\<rparr> ''42'' ''hi''
            JUndefined JUndefined))
     JNull
     (JObj [(''error'', JObj [(''message'', JStr ''Invalid OAuth access token.'')])]))
   = Resolved (JObj [(''error'', JObj [(''message'', JStr ''Invalid OAuth access token.'')])])"
  by (simp add: sendTextMessage_def sendDisplayMessage_allocate deliver_def
      promise_handler_def)

text \<open>
  What the promise mode does on every outcome: the transport error rejects; a body that is
  not an object is parsed, and then a truthy error field rejects with its message; a body
  that is an object resolves as it is. An exception of \<^verbatim>\<open>JSON.parse\<close>, or of reading the
  error of a parsed null, leaves the promise pending.
\<close>

lemma promise_mode_outcomes:
  "\<not> is_function cb \<Longrightarrow>
   settled (deliver JSON_parse (fst (sendMessage w options requestData cb)) err body) =
     (if truthy err then Rejected err
      else if is_object body then Resolved body
      else (case JSON_parse body of
              Inl e \<Rightarrow> Pending
            | Inr bodyObject \<Rightarrow>
                if nullish bodyObject then Pending
                else if truthy (get_prop bodyObject ''error'')
                then Rejected (get_prop (get_prop bodyObject ''error'') ''message'')
                else Resolved bodyObject))"
  by (simp add: sendMessage_mode deliver_def promise_handler_def read_prop_def
      split: sum.splits)

text \<open>
  Claim C2 (callback mode of \<^verbatim>\<open>sendMessage\<close>: on every transport outcome the callback is
  called, with the error or with \<open>(null, body)\<close>). The handler reads \<^verbatim>\<open>body.error\<close> without
  looking at the body first. When no transport error occurred and the body is undefined
  (an empty response, with \<^verbatim>\<open>options.json\<close> set), the read throws a TypeError and the
  callback is never called, where the claim has it called with \<open>(null, body)\<close>.
\<close>

theorem callback_not_called_on_undefined_body:
  "\<forall>JSON_parse.
     cb_args (deliver JSON_parse
       (fst (markSeen init_world \<lparr>token = ''T'', proxy = None\<rparr> ''42''
              (JFun OrdinaryFunction ''cb'')))
       JNull JUndefined) = None
     \<and> uncaught (deliver JSON_parse
       (fst (markSeen init_world \<lparr>token = ''T'', proxy = None\<rparr> ''42''
              (JFun OrdinaryFunction ''cb'')))
       JNull JUndefined) = Some TypeError"
  by (simp add: markSeen_def sendAction_allocate deliver_def callback_handler_def
      read_prop_def)

text \<open>
  On the other outcomes the callback mode calls the callback once: with the transport
  error alone when that is truthy, else with the body's error field alone when that is
  truthy, and else with \<open>(null, body)\<close>, the body being the one delivered.
\<close>

lemma callback_mode_outcomes:
  "cb_args (deliver JSON_parse (fst (sendMessage w options requestData (JFun k f))) err body) =
     (if truthy err then Some [err]
      else if nullish body then None
      else if truthy (get_prop body ''error'') then Some [get_prop body ''error'']
      else Some [JNull, body])"
  by (simp add: sendMessage_mode deliver_def callback_handler_def read_prop_def)

text \<open>
  Claim C10: called with a function of any kind as callback, \<^verbatim>\<open>sendMessage\<close> returns
  \<^verbatim>\<open>Promise.resolve()\<close>, a promise already resolved with undefined, and it stays so whatever
  the transport delivers and whatever the handler does with it.
\<close>

theorem callback_mode_returns_resolved_promise:
  "returned (fst (sendMessage w options requestData (JFun k f))) = PromiseResolve JUndefined
   \<and> settled (deliver JSON_parse (fst (sendMessage w options requestData (JFun k f))) err body)
       = Resolved JUndefined"
  by (simp add: sendMessage_mode deliver_def Let_def split: sum.splits)

section \<open>The proxy descriptor\<close>






text \<open>
  A descriptor with an own property \<^verbatim>\<open>hasOwnProperty\<close> that is not a function makes the
  check itself throw a TypeError, whatever else the descriptor holds.
\<close>

lemma getProxyData_shadowed_hasOwnProperty:
  "getProxyData call requestData
     (JObj [(''hasOwnProperty'', JNum 1), (''hostname'', JStr ''proxy.local''),
            (''port'', JNum 3128)]) = Inl TypeError"
  "getProxyData call requestData (JObj [(''hasOwnProperty'', JNum 1)]) = Inl TypeError"
  by (simp_all add: getProxyData_def valid_descriptor_def hasOwnProperty_def)

text \<open>
  Claim C3 (the proxy string of an accepted descriptor begins with \<^verbatim>\<open>http://\<close> or
  \<^verbatim>\<open>https://\<close>). The code adds the scheme unless the hostname begins with the four letters
  \<^verbatim>\<open>http\<close>, which a hostname without a scheme can do: for \<^verbatim>\<open>httpproxy.example.com\<close> and port
  8080 the stored proxy string has no scheme.
\<close>

theorem getProxyData_hostname_without_scheme:
  "getProxyData call \<lparr>token = ''T'', proxy = None\<rparr>
     (JObj [(''hostname'', JStr ''httpproxy.example.com''), (''port'', JNum 8080)])
   = Inr \<lparr>token = ''T'', proxy = Some ''httpproxy.example.com:8080''\<rparr>"
  by (simp add: getProxyData_def valid_descriptor_def hasOwnProperty_def host_and_port_def
      get_prop_def int_to_string_def decimal.simps)




section \<open>Copies of the static options\<close>

text \<open>
  Claim C5: every call of \<^verbatim>\<open>getRequestOptions\<close> returns a deep copy of the static options
  as they are at the call (field by field, \<^verbatim>\<open>qs\<close> included, \<^verbatim>\<open>json\<close> after its JSON round
  trip), made of new objects: the copy and its \<^verbatim>\<open>qs\<close> are objects other than the static
  ones and other than those of any other call. Hence assigning to the fields of one result
  or of its \<^verbatim>\<open>qs\<close> (any \<open>f\<close> and \<open>g\<close>) changes neither what the static options hold nor what
  another result holds, and a later call still copies the static options.
\<close>

theorem getRequestOptions_independent_copy:
  assumes "wf_world w"
  shows
    "let (a1, w1) = getRequestOptions w;
         (a2, w2) = getRequestOptions w1;
         w3 = update_options a1 f (update_qs (qs (options_heap w2 ! a1)) g w2);
         w4 = update_options a2 f (update_qs (qs (options_heap w2 ! a2)) g w2);
         (a5, w5) = getRequestOptions w3
     in view w1 a1 = (view w requestOptions)\<lparr>json := json_copy (json (view w requestOptions))\<rparr>
      \<and> view w2 a2 = view w1 a1
      \<and> a1 \<noteq> requestOptions \<and> a2 \<noteq> requestOptions \<and> a1 \<noteq> a2
      \<and> qs (options_heap w2 ! a1) \<noteq> qs (options_heap w2 ! requestOptions)
      \<and> qs (options_heap w2 ! a2) \<noteq> qs (options_heap w2 ! requestOptions)
      \<and> qs (options_heap w2 ! a1) \<noteq> qs (options_heap w2 ! a2)
      \<and> view w3 requestOptions = view w requestOptions
      \<and> view w3 a2 = view w2 a2
      \<and> view w4 requestOptions = view w requestOptions
      \<and> view w4 a1 = view w2 a1
      \<and> view w5 a5 = view w1 a1"
  using assms
  by (simp add: getRequestOptions_allocate Let_def)
     (simp add: wf_world_def view_def Let_def allocate_def update_options_def update_qs_def
        nth_append requestOptions_def)

theorem getRequestOptions_independent_copy_witness:
  "wf_world init_world
   \<and> (let (a1, w1) = getRequestOptions init_world;
          (a2, w2) = getRequestOptions w1;
          w3 = update_options a1 (\<lambda>opt. opt\<lparr>url := url opt @ ''me/messages''\<rparr>)
                 (update_qs (qs (options_heap w2 ! a1))
                    (\<lambda>q. q\<lparr>access_token := Some ''T''\<rparr>) w2)
      in a1 = 1 \<and> a2 = 2
       \<and> view w1 a1 = \<lparr>url = ''https://graph.facebook.com/v3.1/'',
                        qs = \<lparr>access_token = None, qs_fields = None\<rparr>,
                        http_method = None, options_proxy = None, json = None\<rparr>
       \<and> view w3 a1 = \<lparr>url = ''https://graph.facebook.com/v3.1/me/messages'',
                        qs = \<lparr>access_token = Some ''T'', qs_fields = None\<rparr>,
                        http_method = None, options_proxy = None, json = None\<rparr>
       \<and> view w3 requestOptions = view init_world requestOptions
       \<and> view w3 a2 = view w1 a1)"
  using getRequestOptions_independent_copy [OF wf_world_init,
      of "\<lambda>opt. opt\<lparr>url := url opt @ ''me/messages''\<rparr>" "\<lambda>q. q\<lparr>access_token := Some ''T''\<rparr>"]
  by (simp add: wf_world_init getRequestOptions_allocate Let_def)
     (simp add: view_def Let_def allocate_def update_options_def update_qs_def
        init_world_def requestOptions_def json_copy_def)

text \<open>
  Claim C9: no message-sending or profile-fetching call changes what the static options
  hold. This holds for every public method of the client, for any run of such calls by any
  clients, and for \<^verbatim>\<open>sendMessage\<close> on any options object that is not the static one and does not
  share its \<^verbatim>\<open>qs\<close>; so from the initial store the static access token stays unset. Only
  \<^verbatim>\<open>setAPIVersion\<close> writes to the static options, and it changes their \<^verbatim>\<open>url\<close> and nothing
  else in the store.
\<close>

theorem static_options_frame:
  assumes "wf_world w"
  shows
    "view (run call w cs) requestOptions = view w requestOptions
     \<and> view (perform call w rd c) requestOptions = view w requestOptions
     \<and> (options \<noteq> requestOptions
          \<and> qs (options_heap w ! options) \<noteq> qs (options_heap w ! requestOptions)
        \<longrightarrow> view (snd (sendMessage w options rd cb)) requestOptions = view w requestOptions)
     \<and> access_token (qs (view (run call init_world cs) requestOptions)) = None
     \<and> view (setAPIVersion version w) requestOptions
         = (view w requestOptions)\<lparr>url := ''https://graph.facebook.com/v'' @ version @ ''/''\<rparr>
     \<and> qs_heap (setAPIVersion version w) = qs_heap w
     \<and> length (options_heap (setAPIVersion version w)) = length (options_heap w)
     \<and> (a \<noteq> requestOptions
        \<longrightarrow> options_heap (setAPIVersion version w) ! a = options_heap w ! a)"
proof -
  have r: "view (run call w cs) requestOptions = view w requestOptions"
    using run_frame [OF assms] by simp
  have p: "view (perform call w rd c) requestOptions = view w requestOptions"
    using perform_frame [OF assms] by simp
  have s: "options \<noteq> requestOptions
          \<and> qs (options_heap w ! options) \<noteq> qs (options_heap w ! requestOptions)
        \<longrightarrow> view (snd (sendMessage w options rd cb)) requestOptions = view w requestOptions"
    by (cases "proxy rd")
       (simp_all add: sendMessage_def Let_def view_def update_qs_def update_options_def)
  have t: "access_token (qs (view (run call init_world cs) requestOptions)) = None"
    using run_frame [OF wf_world_init, of call cs]
    by (simp add: view_def Let_def init_world_def requestOptions_def)
  have v: "view (setAPIVersion version w) requestOptions
         = (view w requestOptions)\<lparr>url := ''https://graph.facebook.com/v'' @ version @ ''/''\<rparr>"
    using assms
    by (simp add: setAPIVersion_def update_options_def view_def Let_def wf_world_def)
  have q: "qs_heap (setAPIVersion version w) = qs_heap w"
    "length (options_heap (setAPIVersion version w)) = length (options_heap w)"
    by (simp_all add: setAPIVersion_def update_options_def)
  have o: "a \<noteq> requestOptions
        \<longrightarrow> options_heap (setAPIVersion version w) ! a = options_heap w ! a"
    by (simp add: setAPIVersion_def update_options_def)
  from r p s t v q o show ?thesis
    by blast
qed

theorem static_options_frame_witness:
  "wf_world (snd (getRequestOptions init_world))
   \<and> 1 \<noteq> requestOptions
   \<and> qs (options_heap (snd (getRequestOptions init_world)) ! 1)
       \<noteq> qs (options_heap (snd (getRequestOptions init_world)) ! requestOptions)
   \<and> view (snd (sendMessage (snd (getRequestOptions init_world)) 1
              \<lparr>token = ''T'', proxy = Some ''http://proxy.local:3128''\<rparr> JUndefined))
        requestOptions
       = \<lparr>url = ''https://graph.facebook.com/v3.1/'',
          qs = \<lparr>access_token = None, qs_fields = None\<rparr>,
          http_method = None, options_proxy = None, json = None\<rparr>
   \<and> view (run (\<lambda>f this args. Inr JUndefined) (snd (getRequestOptions init_world))
        [(\<lparr>token = ''T'', proxy = None\<rparr>, SendTextMessage ''42'' ''hi'' JUndefined JUndefined),
         (\<lparr>token = ''U'', proxy = None\<rparr>,
          GetUserProfile ''42'' JUndefined (JFun OrdinaryFunction ''cb''))])
        requestOptions
       = \<lparr>url = ''https://graph.facebook.com/v3.1/'',
          qs = \<lparr>access_token = None, qs_fields = None\<rparr>,
          http_method = None, options_proxy = None, json = None\<rparr>
   \<and> view (setAPIVersion ''3.2'' (snd (getRequestOptions init_world))) requestOptions
       = \<lparr>url = ''https://graph.facebook.com/v3.2/'',
          qs = \<lparr>access_token = None, qs_fields = None\<rparr>,
          http_method = None, options_proxy = None, json = None\<rparr>
   \<and> options_heap (setAPIVersion ''3.2'' (snd (getRequestOptions init_world))) ! 1
       = options_heap (snd (getRequestOptions init_world)) ! 1"
proof -
  let ?w = "snd (getRequestOptions init_world)"
  have wf: "wf_world ?w"
    by (simp add: getRequestOptions_allocate wf_world_allocate wf_world_init)
  have base: "view ?w requestOptions
       = \<lparr>url = ''https://graph.facebook.com/v3.1/'',
          qs = \<lparr>access_token = None, qs_fields = None\<rparr>,
          http_method = None, options_proxy = None, json = None\<rparr>"
    by (simp add: getRequestOptions_allocate view_static_allocate wf_world_init)
       (simp add: view_def Let_def init_world_def requestOptions_def)
  have other: "1 \<noteq> requestOptions"
    "qs (options_heap ?w ! 1) \<noteq> qs (options_heap ?w ! requestOptions)"
    by (simp_all add: getRequestOptions_allocate allocate_def init_world_def requestOptions_def)
  from static_options_frame [OF wf,
      where cs = "[(\<lparr>token = ''T'', proxy = None\<rparr>,
                    SendTextMessage ''42'' ''hi'' JUndefined JUndefined),
                   (\<lparr>token = ''U'', proxy = None\<rparr>,
                    GetUserProfile ''42'' JUndefined (JFun OrdinaryFunction ''cb''))]"
        and call = "\<lambda>f this args. Inr JUndefined"
        and options = 1 and rd = "\<lparr>token = ''T'', proxy = Some ''http://proxy.local:3128''\<rparr>"
        and cb = JUndefined and version = "''3.2''" and a = 1]
    wf base other
  show ?thesis
    by simp
qed

section \<open>The payloads of the client's methods\<close>

lemma url_match_examples:
  "url_match ''https://example.com/cat.png''"
  "url_match ''example.com''"
  "\<not> url_match ''1234567890''"
  "\<not> url_match ''ab.cde1''"
  by code_simp+

lemma sendUrlOrIdBasedMessage_json:
  "json (request (fst (sendUrlOrIdBasedMessage w requestData uid type urlOrId tag cb))) =
     Some (JObj ([(''recipient'', JObj [(''id'', JStr uid)]),
                  (''message'', JObj [(''attachment'',
                     JObj [(''type'', attachment_type type),
                           (''payload'',
                              if url_match urlOrId
                              then JObj [(''is_reusable'', JBool True), (''url'', JStr urlOrId)]
                              else JObj [(''attachment_id'', JStr urlOrId)])])])]
       @ (if truthy tag
          then [(''messaging_type'', get_prop tag ''messaging_type''),
                (''tag'', get_prop tag ''tag'')]
          else [])))"
  by (simp add: sendUrlOrIdBasedMessage_def sendAttachmentMessage_def Let_def
      sendDisplayMessage_json)

text \<open>
  Claim C6: each of \<^verbatim>\<open>sendImageMessage\<close>, \<^verbatim>\<open>sendAudioMessage\<close>, \<^verbatim>\<open>sendVideoMessage\<close> and
  \<^verbatim>\<open>sendFileMessage\<close> sends, as the message's attachment, its attachment type with the
  payload \<^verbatim>\<open>{is_reusable: true, url: s}\<close> when the string \<open>s\<close> matches the URL expression, and
  \<^verbatim>\<open>{attachment_id: s}\<close> otherwise.
\<close>

theorem media_attachment_payload:
  "(let sent = (\<lambda>type. Some (JObj
        ([(''recipient'', JObj [(''id'', JStr uid)]),
          (''message'', JObj [(''attachment'',
             JObj [(''type'', JStr type),
                   (''payload'',
                      if url_match s
                      then JObj [(''is_reusable'', JBool True), (''url'', JStr s)]
                      else JObj [(''attachment_id'', JStr s)])])])]
         @ (if truthy tag
            then [(''messaging_type'', get_prop tag ''messaging_type''),
                  (''tag'', get_prop tag ''tag'')]
            else []))))
    in json (request (fst (sendImageMessage w requestData uid s tag cb))) = sent ''image''
     \<and> json (request (fst (sendAudioMessage w requestData uid s tag cb))) = sent ''audio''
     \<and> json (request (fst (sendVideoMessage w requestData uid s tag cb))) = sent ''video''
     \<and> json (request (fst (sendFileMessage w requestData uid s tag cb))) = sent ''file'')"
  by (simp add: Let_def sendImageMessage_def sendAudioMessage_def sendVideoMessage_def
      sendFileMessage_def sendUrlOrIdBasedMessage_json)

text \<open>
  \<^verbatim>\<open>toggleTyping(id, true)\<close> sends the sender action \<^verbatim>\<open>typing_on\<close>, \<^verbatim>\<open>toggleTyping(id, false)\<close>
  sends \<^verbatim>\<open>typing_off\<close>, both without a callback, and \<^verbatim>\<open>toggleTyping(id, cb)\<close> with an
  ordinary function sends \<^verbatim>\<open>typing_off\<close> and uses the function as the callback.
\<close>

lemma toggleTyping_sender_action:
  "json (request (fst (toggleTyping w requestData uid [JBool True]))) =
     Some (JObj [(''recipient'', JObj [(''id'', JStr uid)]),
                 (''sender_action'', JStr ''typing_on'')])
   \<and> callback (fst (toggleTyping w requestData uid [JBool True])) = None
   \<and> json (request (fst (toggleTyping w requestData uid [JBool False]))) =
     Some (JObj [(''recipient'', JObj [(''id'', JStr uid)]),
                 (''sender_action'', JStr ''typing_off'')])
   \<and> callback (fst (toggleTyping w requestData uid [JBool False])) = None
   \<and> json (request (fst (toggleTyping w requestData uid [JFun OrdinaryFunction f]))) =
     Some (JObj [(''recipient'', JObj [(''id'', JStr uid)]),
                 (''sender_action'', JStr ''typing_off'')])
   \<and> callback (fst (toggleTyping w requestData uid [JFun OrdinaryFunction f]))
       = Some (JFun OrdinaryFunction f)"
  by (simp add: toggleTyping_def toggleAction_def arg_def Let_def sendAction_allocate
      typingOn_def typingOff_def)

text \<open>
  Claim C7 (\<^verbatim>\<open>toggleTyping(id, cb)\<close> with a function as the second argument sends
  \<^verbatim>\<open>typing_off\<close> and uses the function as the callback). The code recognises the function
  by \<^verbatim>\<open>Object.prototype.toString.call(toggle) === '[object Function]'\<close>, which is false of an
  async function, whose tag is \<^verbatim>\<open>[object AsyncFunction]\<close>, while \<^verbatim>\<open>sendMessage\<close> recognises a
  callback by \<^verbatim>\<open>typeof\<close>. An async callback is therefore taken for a truthy toggle: the call
  sends \<^verbatim>\<open>typing_on\<close>, registers no callback and returns a new promise.
\<close>

theorem toggleTyping_async_callback_dropped:
  "json (request (fst (toggleTyping init_world \<lparr>token = ''T'', proxy = None\<rparr> ''42''
       [JFun AsyncFunction ''async (err, body) => {}''])))
     = Some (JObj [(''recipient'', JObj [(''id'', JStr ''42'')]),
                   (''sender_action'', JStr ''typing_on'')])
   \<and> callback (fst (toggleTyping init_world \<lparr>token = ''T'', proxy = None\<rparr> ''42''
       [JFun AsyncFunction ''async (err, body) => {}''])) = None
   \<and> returned (fst (toggleTyping init_world \<lparr>token = ''T'', proxy = None\<rparr> ''42''
       [JFun AsyncFunction ''async (err, body) => {}''])) = NewPromise"
  by (simp add: toggleTyping_def toggleAction_def arg_def Let_def sendAction_allocate
      typingOn_def)

text \<open>
  Claim C8, as stated, fails for the methods that take no messaging tag: \<^verbatim>\<open>markSeen\<close>,
  \<^verbatim>\<open>toggleTyping\<close> and \<^verbatim>\<open>getUserProfile\<close> have no such parameter. A tag pair passed to
  \<^verbatim>\<open>markSeen\<close> after the id, or to \<^verbatim>\<open>toggleTyping\<close> after the toggle, is taken for the callback
  and appears nowhere in the payload.
\<close>

theorem markSeen_takes_no_tag:
  "json (request (fst (markSeen init_world \<lparr>token = ''T'', proxy = None\<rparr> ''42''
       (JObj [(''messaging_type'', JStr ''MESSAGE_TAG''), (''tag'', JStr ''ACCOUNT_UPDATE'')]))))
     = Some (JObj [(''recipient'', JObj [(''id'', JStr ''42'')]),
                   (''sender_action'', JStr ''mark_seen'')])
   \<and> json (request (fst (toggleTyping init_world \<lparr>token = ''T'', proxy = None\<rparr> ''42''
       [JBool True,
        JObj [(''messaging_type'', JStr ''MESSAGE_TAG''), (''tag'', JStr ''ACCOUNT_UPDATE'')]])))
     = Some (JObj [(''recipient'', JObj [(''id'', JStr ''42'')]),
                   (''sender_action'', JStr ''typing_on'')])"
  by (simp add: markSeen_def markSeenPayload_def toggleTyping_def toggleAction_def arg_def
      typingOn_def sendAction_allocate)

lemma elements_to_strings_primitive:
  "list_all primitive xs \<Longrightarrow> \<exists>ss. elements_to_strings call xs = Inr ss"
proof (induction xs)
  case Nil
  then show ?case by simp
next
  case (Cons x xs)
  then obtain ss where "elements_to_strings call xs = Inr ss"
    by auto
  moreover from Cons.prems have "to_string call x = Inr (prim_to_string x)"
    by (cases x) simp_all
  ultimately show ?case
    by simp
qed

lemma getUserProfile_sends:
  "(case fieldsArray of JArr xs \<Rightarrow> list_all primitive xs | _ \<Rightarrow> True) \<Longrightarrow>
   \<exists>r. fst (getUserProfile call w rd uid fieldsArray cb) = Inr r"
proof (cases fieldsArray)
  case (JArr xs)
  assume "case fieldsArray of JArr xs \<Rightarrow> list_all primitive xs | _ \<Rightarrow> True"
  with JArr obtain ss where "elements_to_strings call xs = Inr ss"
    using elements_to_strings_primitive [of xs call] by auto
  with JArr show ?thesis
    by (simp add: getUserProfile_result array_join_def)
qed (simp_all add: getUserProfile_result)

text \<open>
  Claim C8, amended. The eight \<^verbatim>\<open>send...Message\<close> methods take an optional messaging tag,
  and a truthy tag adds its \<^verbatim>\<open>messaging_type\<close> and \<^verbatim>\<open>tag\<close> to the end of the payload the
  method sends without a tag. \<^verbatim>\<open>markSeen\<close>, \<^verbatim>\<open>toggleTyping\<close> and \<^verbatim>\<open>getUserProfile\<close> take no tag:
  the payload of the first two has the recipient and the sender action only, and
  \<^verbatim>\<open>getUserProfile\<close> sends no payload when the static options have none, as in the initial
  store. Every public method takes an optional callback, the last parameter (for
  \<^verbatim>\<open>toggleTyping\<close>, the third of three arguments): with a callback that is not a function the method
  returns a new promise and registers no callback, and with a function it registers it
  and returns \<^verbatim>\<open>Promise.resolve()\<close>. \<^verbatim>\<open>toggleTyping\<close> called with no toggle, or with a toggle
  alone that is not a function, returns a new promise, and \<^verbatim>\<open>getUserProfile\<close> makes its
  request whenever \<^verbatim>\<open>fieldsArray\<close> is not an array or is an array of primitive values.
\<close>

theorem methods_tag_and_callback:
  "(let tagged = (\<lambda>r r0. spread (json (request (fst r))) =
        spread (json (request (fst r0)))
        @ (if truthy tag
           then [(''messaging_type'', get_prop tag ''messaging_type''),
                 (''tag'', get_prop tag ''tag'')]
           else []))
    in tagged (sendTextMessage w rd uid msg tag cb)
              (sendTextMessage w rd uid msg JUndefined cb)
     \<and> tagged (sendImageMessage w rd uid s tag cb) (sendImageMessage w rd uid s JUndefined cb)
     \<and> tagged (sendAudioMessage w rd uid s tag cb) (sendAudioMessage w rd uid s JUndefined cb)
     \<and> tagged (sendVideoMessage w rd uid s tag cb) (sendVideoMessage w rd uid s JUndefined cb)
     \<and> tagged (sendFileMessage w rd uid s tag cb) (sendFileMessage w rd uid s JUndefined cb)
     \<and> tagged (sendButtonsMessage w rd uid msg buttons tag cb)
              (sendButtonsMessage w rd uid msg buttons JUndefined cb)
     \<and> tagged (sendTemplateMessage w rd uid template tag cb)
              (sendTemplateMessage w rd uid template JUndefined cb)
     \<and> tagged (sendQuickReplyMessage w rd uid textOrAttachment quickReplies tag cb)
              (sendQuickReplyMessage w rd uid textOrAttachment quickReplies JUndefined cb))
   \<and> map fst (spread (json (request (fst (markSeen w rd uid cb)))))
       = [''recipient'', ''sender_action'']
   \<and> map fst (spread (json (request (fst (toggleTyping w rd uid rest)))))
       = [''recipient'', ''sender_action'']
   \<and> (json (options_heap w ! requestOptions) = None
        \<and> fst (getUserProfile call w rd uid fieldsArray cb) = Inr r
      \<longrightarrow> json (request r) = None)
   \<and> (let mode = (\<lambda>r cb.
          returned r = (if is_function cb then PromiseResolve JUndefined else NewPromise)
          \<and> callback r = (if is_function cb then Some cb else None))
      in mode (fst (markSeen w rd uid cb)) cb
       \<and> mode (fst (toggleTyping w rd uid [toggle, cb])) cb
       \<and> mode (fst (toggleTyping w rd uid [])) JUndefined
       \<and> (\<not> is_function toggle \<longrightarrow> mode (fst (toggleTyping w rd uid [toggle])) JUndefined)
       \<and> mode (fst (sendTextMessage w rd uid msg tag cb)) cb
       \<and> mode (fst (sendImageMessage w rd uid s tag cb)) cb
       \<and> mode (fst (sendAudioMessage w rd uid s tag cb)) cb
       \<and> mode (fst (sendVideoMessage w rd uid s tag cb)) cb
       \<and> mode (fst (sendFileMessage w rd uid s tag cb)) cb
       \<and> mode (fst (sendButtonsMessage w rd uid msg buttons tag cb)) cb
       \<and> mode (fst (sendTemplateMessage w rd uid template tag cb)) cb
       \<and> mode (fst (sendQuickReplyMessage w rd uid textOrAttachment quickReplies tag cb)) cb
       \<and> (fst (getUserProfile call w rd uid fieldsArray cb) = Inr r \<longrightarrow> mode r cb))
   \<and> ((case fieldsArray of JArr xs \<Rightarrow> list_all primitive xs | _ \<Rightarrow> True)
      \<longrightarrow> (\<exists>r. fst (getUserProfile call w rd uid fieldsArray cb) = Inr r))"
proof -
  have not_tagged: "toString_tag toggle \<noteq> ''[object Function]''" if "\<not> is_function toggle"
    using that by (cases toggle rule: toString_tag.cases) simp_all
  have profile: "json (request r) = json_copy (json (options_heap w ! requestOptions))
      \<and> returned r = (if is_function cb then PromiseResolve JUndefined else NewPromise)
      \<and> callback r = (if is_function cb then Some cb else None)"
    if "fst (getUserProfile call w rd uid fieldsArray cb) = Inr r"
    using that by (auto simp add: getUserProfile_result split: sum.splits)
  show ?thesis
    using not_tagged profile getUserProfile_sends [of fieldsArray call w rd uid cb]
    by (simp add: sendTextMessage_def sendImageMessage_def sendAudioMessage_def
        sendVideoMessage_def sendFileMessage_def sendButtonsMessage_def
        sendTemplateMessage_def sendQuickReplyMessage_def sendUrlOrIdBasedMessage_def
        sendAttachmentMessage_def markSeen_def markSeenPayload_def toggleTyping_def
        toggleAction_def typingOn_def typingOff_def arg_def Let_def
        sendDisplayMessage_allocate sendAction_allocate json_copy_def)
qed

theorem methods_tag_and_callback_witness:
  "json (options_heap init_world ! requestOptions) = None
   \<and> fst (getUserProfile (\<lambda>f this args. Inr JUndefined) init_world
            \<lparr>token = ''T'', proxy = None\<rparr> ''42''
            (JArr [JStr ''first_name'', JStr ''last_name'']) JUndefined)
       = Inr \<lparr>request =
                \<lparr>url = ''https://graph.facebook.com/v3.1/42'',
                 qs = \<lparr>access_token = Some ''T'',
                       qs_fields = Some ''first_name,last_name''\<rparr>,
                 http_method = Some ''GET'', options_proxy = None, json = None\<rparr>,
              callback = None, returned = NewPromise\<rparr>
   \<and> \<not> is_function (JBool True)
   \<and> returned (fst (toggleTyping init_world \<lparr>token = ''T'', proxy = None\<rparr> ''42''
                      [JBool True])) = NewPromise
   \<and> spread (json (request (fst (sendTextMessage init_world \<lparr>token = ''T'', proxy = None\<rparr>
        ''42'' ''hi'' (JObj [(''messaging_type'', JStr ''MESSAGE_TAG''),
                             (''tag'', JStr ''ACCOUNT_UPDATE'')]) JUndefined))))
       = [(''recipient'', JObj [(''id'', JStr ''42'')]),
          (''message'', JObj [(''text'', JStr ''hi'')]),
          (''messaging_type'', JStr ''MESSAGE_TAG''), (''tag'', JStr ''ACCOUNT_UPDATE'')]"
  using methods_tag_and_callback
    [where w = init_world and rd = "\<lparr>token = ''T'', proxy = None\<rparr>" and uid = "''42''"
       and call = "\<lambda>f this args. Inr JUndefined"
       and fieldsArray = "JArr [JStr ''first_name'', JStr ''last_name'']"
       and cb = JUndefined and toggle = "JBool True" and msg = "''hi''"
       and tag = "JObj [(''messaging_type'', JStr ''MESSAGE_TAG''),
                        (''tag'', JStr ''ACCOUNT_UPDATE'')]"]
  by (simp add: Let_def getUserProfile_result array_join_def init_world_def requestOptions_def
      json_copy_def sendTextMessage_def sendDisplayMessage_allocate get_prop_def)

end
